theory Spec2Isabelle
  imports
    Main
    "HOL-Library.Char_ord"
    "HOL-Library.List_Lexorder"
    "HOL-Library.Signed_Division"
begin

section \<open>Texts and ordered maps\<close>

text \<open>
  A Motoko \<open>Text\<close> and a TypeScript \<open>string\<close> are modelled as a HOL string. The
  keys of a \<open>mo:core/Map\<close> are compared with \<open>Text.compare\<close>, the lexicographic order
  on the characters, which is the order of \<open>HOL-Library.List_Lexorder\<close> over
  \<open>HOL-Library.Char_ord\<close>.
\<close>

type_synonym Text = string

text \<open>
  \<open>mo:core/Map\<close> is an ordered map: \<open>add\<close> inserts a key or replaces its value,
  \<open>entries\<close> and \<open>values\<close> iterate in ascending key order. It is modelled as an
  association list that \<open>Map_add\<close> keeps in key order.
\<close>

type_synonym 'v Map = "(Text \<times> 'v) list"

definition Map_empty :: "'v Map" where
  "Map_empty = []"

definition Map_get :: "'v Map \<Rightarrow> Text \<Rightarrow> 'v option" where
  "Map_get m k = map_of m k"

fun Map_add :: "'v Map \<Rightarrow> Text \<Rightarrow> 'v \<Rightarrow> 'v Map" where
  "Map_add [] k v = [(k, v)]"
| "Map_add (e # m) k v =
     (if k < fst e then (k, v) # e # m
      else if k = fst e then (k, v) # m
      else e # Map_add m k v)"

definition Map_remove :: "'v Map \<Rightarrow> Text \<Rightarrow> 'v Map" where
  "Map_remove m k = filter (\<lambda>e. fst e \<noteq> k) m"

definition Map_containsKey :: "'v Map \<Rightarrow> Text \<Rightarrow> bool" where
  "Map_containsKey m k = (Map_get m k \<noteq> None)"

definition Map_entries :: "'v Map \<Rightarrow> (Text \<times> 'v) list" where
  "Map_entries m = m"

definition Map_values :: "'v Map \<Rightarrow> 'v list" where
  "Map_values m = map snd m"

section \<open>The color-range normalizer (SongEditorTab.tsx)\<close>

text \<open>
  \<open>ColorHighlight\<close> has \<open>bigint\<close> bounds, which \<open>rebuildColorRanges\<close> reads through
  \<open>Number(...)\<close>. The conversion is exact below \<open>2^53\<close>, and a range passes the
  filter only when \<open>0 \<le> start < end \<le> text.length\<close>, so it is exact on every
  range that is kept; the bounds are modelled as \<open>int\<close> and \<open>Number\<close> as the identity.
  The field \<open>end\<close> is named \<open>endpos\<close>.
\<close>

record ColorHighlight =
  start :: int
  endpos :: int
  color :: Text

text \<open>
  The loop of \<open>rebuildColorRanges\<close> over the valid ranges, with its cursor \<open>lastEnd\<close>:
  a range is pushed when it starts at or after the cursor, which then moves to its end.
\<close>

fun noOverlapsFrom :: "int \<Rightarrow> ColorHighlight list \<Rightarrow> ColorHighlight list" where
  "noOverlapsFrom lastEnd [] = []"
| "noOverlapsFrom lastEnd (highlight # rest) =
     (if start highlight \<ge> lastEnd
      then highlight # noOverlapsFrom (endpos highlight) rest
      else noOverlapsFrom lastEnd rest)"

text \<open>
  \<open>Array.prototype.sort\<close> is stable, as is \<open>sort_key\<close>; \<open>text.length\<close> is the number
  of code units of the text.
\<close>

definition rebuildColorRanges :: "Text \<Rightarrow> ColorHighlight list \<Rightarrow> ColorHighlight list" where
  "rebuildColorRanges text highlights =
     (if length highlights = 0 then []
      else
        let sorted = sort_key start highlights;
            valid = filter (\<lambda>h. start h < endpos h \<and> start h \<ge> 0
                                  \<and> endpos h \<le> int (length text)) sorted
        in noOverlapsFrom 0 valid)"

section \<open>The store actor (the Motoko canister)\<close>

subsection \<open>Types\<close>

text \<open>The field \<open>end\<close> of a \<open>ColorRange\<close> is named \<open>range_end\<close>.\<close>

record ColorRange =
  range_start :: nat
  range_end :: nat
  range_color :: Text

text \<open>
  \<open>Storage.ExternalBlob\<close> is declared by the blob-storage mixin; the store only
  copies it, so it is the type parameter \<open>'b\<close>. The fields \<open>id\<close>, \<open>createdAt\<close> and
  \<open>updatedAt\<close>, which \<open>Song\<close> and \<open>SetList\<close> share, carry the record's name.
\<close>

record 'b Song =
  song_id :: Text
  title :: Text
  artist :: Text
  lyrics :: Text
  scrollSpeed :: nat
  tempo :: nat
  backgroundColor :: Text
  textColor :: Text
  textSize :: nat
  isBold :: bool
  song_createdAt :: int
  song_updatedAt :: int
  linesPerScroll :: int
  colorRanges :: "ColorRange list"
  image :: "'b option"

record SetList =
  setlist_id :: Text
  name :: Text
  songIds :: "Text list"
  setlist_createdAt :: int
  setlist_updatedAt :: int

record SetListSongPosition =
  songId :: Text
  position :: nat

record FileHandleReference =
  path :: Text
  isSetList :: bool

record SaveSongResponse =
  success :: bool
  resp_songId :: "Text option"
  errorMessage :: "Text option"
  replaceExistingPrompt :: bool

text \<open>The persistent state of the actor: its five maps.\<close>

record 'b actor_state =
  songs :: "'b Song Map"
  setLists :: "SetList Map"
  titleToId :: "Text Map"
  setListSongPositions :: "SetListSongPosition list Map"
  fileHandles :: "FileHandleReference Map"

definition initial_state :: "'b actor_state" where
  "initial_state =
     \<lparr>songs = Map_empty, setLists = Map_empty, titleToId = Map_empty,
      setListSongPositions = Map_empty, fileHandles = Map_empty\<rparr>"

text \<open>The argument of \<open>importData\<close> and the result of \<open>exportData\<close>.\<close>

record 'b Snapshot =
  snap_songs :: "'b Song list"
  snap_setLists :: "SetList list"

text \<open>
  \<open>Runtime.trap\<close> aborts the call and rolls the state back; each trap message of the
  actor is an error value: "Song not found", "Set list not found" and
  "Song not found in set list".
\<close>

datatype error = SongNotFound | SetListNotFound | SongNotFoundInSetList

subsection \<open>Helper functions\<close>

text \<open>
  \<open>Nat.toText\<close> and \<open>Int.toText\<close>: the decimal digits, with \<open>-\<close> before a negative
  number. \<open>digit\<close> is only applied below ten.
\<close>

definition digit :: "nat \<Rightarrow> char" where
  "digit d = ''0123456789'' ! d"

fun Nat_toText :: "nat \<Rightarrow> Text" where
  "Nat_toText n = (if n < 10 then [digit n] else Nat_toText (n div 10) @ [digit (n mod 10)])"

declare Nat_toText.simps [simp del]

definition Int_toText :: "int \<Rightarrow> Text" where
  "Int_toText i = (if i < 0 then CHR ''-'' # Nat_toText (nat (- i)) else Nat_toText (nat i))"

text \<open>
  \<open>Time.now()\<close> is the system time of the Internet Computer, a constant during the
  execution of one message; every call that reads it takes it as the parameter \<open>now\<close>.
  Motoko's \<open>%\<close> on \<open>Int\<close> is the truncated remainder \<open>smod\<close>, and \<open>Int.abs\<close> gives a \<open>Nat\<close>.
\<close>

definition randomPart :: "int \<Rightarrow> nat" where
  "randomPart now = nat \<bar>(now * 100000000) smod 100000000\<bar>"

definition randomString :: "nat \<Rightarrow> Text" where
  "randomString r =
     (if r mod 10 = 0 then Nat_toText r @ ''a''
      else if r mod 11 = 0 then Nat_toText r @ ''b''
      else if r mod 12 = 0 then Nat_toText r @ ''c''
      else if r mod 13 = 0 then Nat_toText r @ ''d''
      else if r mod 14 = 0 then Nat_toText r @ ''e''
      else if r mod 15 = 0 then Nat_toText r @ ''f''
      else if r mod 16 = 0 then Nat_toText r @ ''g''
      else if r mod 17 = 0 then Nat_toText r @ ''h''
      else if r mod 18 = 0 then Nat_toText r @ ''i''
      else if r mod 19 = 0 then Nat_toText r @ ''j''
      else if r mod 30 = 0 then Nat_toText r @ ''k''
      else Nat_toText r)"

definition generateId :: "int \<Rightarrow> Text" where
  "generateId now =
     (let timestampPart = Int_toText now
      in timestampPart @ randomString (randomPart now))"

text \<open>
  \<open>title.toLower().trim(#char(' '))\<close>: \<open>toLower\<close> is given on the ASCII letters, the
  characters a HOL string has; \<open>trim\<close> removes the spaces at both ends.
\<close>

definition toLowerChar :: "char \<Rightarrow> char" where
  "toLowerChar c =
     (case map_of (zip ''ABCDEFGHIJKLMNOPQRSTUVWXYZ'' ''abcdefghijklmnopqrstuvwxyz'') c of
        Some l \<Rightarrow> l
      | None \<Rightarrow> c)"

definition toLower :: "Text \<Rightarrow> Text" where
  "toLower t = map toLowerChar t"

definition trim :: "char \<Rightarrow> Text \<Rightarrow> Text" where
  "trim c t = rev (dropWhile (\<lambda>x. x = c) (rev (dropWhile (\<lambda>x. x = c) t)))"

definition normalizeTitle :: "Text \<Rightarrow> Text" where
  "normalizeTitle t = trim CHR '' '' (toLower t)"

text \<open>
  The helpers on the Position Side-Table \<open>setListSongPositions\<close>, which they take and
  return. No two keys share a list, so a list is a value.
\<close>

definition addSongToSetListPositions ::
  "SetListSongPosition list Map \<Rightarrow> Text \<Rightarrow> Text \<Rightarrow> SetListSongPosition list Map" where
  "addSongToSetListPositions tbl setListId sid =
     (let existingPositions = (case Map_get tbl setListId of None \<Rightarrow> [] | Some positions \<Rightarrow> positions);
          pos = length existingPositions + 1
      in Map_add tbl setListId (existingPositions @ [\<lparr>songId = sid, position = pos\<rparr>]))"

definition removeSongFromSetListPositions ::
  "SetListSongPosition list Map \<Rightarrow> Text \<Rightarrow> Text \<Rightarrow> SetListSongPosition list Map" where
  "removeSongFromSetListPositions tbl setListId sid =
     (case Map_get tbl setListId of
        None \<Rightarrow> tbl
      | Some positions \<Rightarrow>
          Map_add tbl setListId (filter (\<lambda>pos. songId pos \<noteq> sid) positions))"

definition updateSongPositionInSetList ::
  "SetListSongPosition list Map \<Rightarrow> Text \<Rightarrow> Text \<Rightarrow> nat \<Rightarrow> SetListSongPosition list Map" where
  "updateSongPositionInSetList tbl setListId sid newPosition =
     (case Map_get tbl setListId of
        None \<Rightarrow> tbl
      | Some positions \<Rightarrow>
          Map_add tbl setListId
            (map (\<lambda>pos. if songId pos = sid then pos\<lparr>position := newPosition\<rparr> else pos) positions))"

definition reorderSetList ::
  "SetListSongPosition list Map \<Rightarrow> Text \<Rightarrow> SetListSongPosition list Map" where
  "reorderSetList tbl setListId =
     (case Map_get tbl setListId of
        None \<Rightarrow> tbl
      | Some positions \<Rightarrow>
          Map_add tbl setListId
            (map (\<lambda>(i, pos). pos\<lparr>position := i + 1\<rparr>) (enumerate 0 positions)))"

subsection \<open>Song management\<close>

definition saveSong ::
  "int \<Rightarrow> 'b actor_state \<Rightarrow> Text option \<Rightarrow> Text \<Rightarrow> Text \<Rightarrow> Text \<Rightarrow> nat \<Rightarrow> nat \<Rightarrow> Text \<Rightarrow> Text
     \<Rightarrow> nat \<Rightarrow> bool \<Rightarrow> int \<Rightarrow> ColorRange list \<Rightarrow> bool \<Rightarrow> 'b option
     \<Rightarrow> SaveSongResponse \<times> 'b actor_state" where
  "saveSong now st ident ttl art lyr speed tmp bg fg sz bold lps ranges replaceExisting img =
     (let normalizedTitle = normalizeTitle ttl;
          existingId = Map_get (titleToId st) normalizedTitle
      in case (ident, existingId) of
        (None, Some existingSongId) \<Rightarrow>
          if replaceExisting then
            let updatedSong =
              \<lparr>song_id = existingSongId, title = ttl, artist = art, lyrics = lyr,
               scrollSpeed = speed, tempo = tmp, backgroundColor = bg, textColor = fg,
               textSize = sz, isBold = bold, song_createdAt = now, song_updatedAt = now,
               linesPerScroll = lps, colorRanges = ranges, image = img\<rparr>
            in (\<lparr>success = True, resp_songId = Some existingSongId, errorMessage = None,
                 replaceExistingPrompt = False\<rparr>,
                st\<lparr>songs := Map_add (songs st) existingSongId updatedSong,
                   titleToId := Map_add (titleToId st) normalizedTitle existingSongId\<rparr>)
          else
            let newId = generateId now;
                newSong =
              \<lparr>song_id = newId, title = ttl, artist = art, lyrics = lyr,
               scrollSpeed = speed, tempo = tmp, backgroundColor = bg, textColor = fg,
               textSize = sz, isBold = bold, song_createdAt = now, song_updatedAt = now,
               linesPerScroll = lps, colorRanges = ranges, image = img\<rparr>
            in (\<lparr>success = True, resp_songId = Some newId, errorMessage = None,
                 replaceExistingPrompt = False\<rparr>,
                st\<lparr>songs := Map_add (songs st) newId newSong,
                   titleToId := Map_add (titleToId st) normalizedTitle newId\<rparr>)
      | (Some sid, _) \<Rightarrow>
          let createdAt = (case Map_get (songs st) sid of
                             None \<Rightarrow> now
                           | Some existingSong \<Rightarrow> song_createdAt existingSong);
              updatedSong =
              \<lparr>song_id = sid, title = ttl, artist = art, lyrics = lyr,
               scrollSpeed = speed, tempo = tmp, backgroundColor = bg, textColor = fg,
               textSize = sz, isBold = bold, song_createdAt = createdAt, song_updatedAt = now,
               linesPerScroll = lps, colorRanges = ranges, image = img\<rparr>
          in (\<lparr>success = True, resp_songId = Some sid, errorMessage = None,
               replaceExistingPrompt = False\<rparr>,
              st\<lparr>songs := Map_add (songs st) sid updatedSong,
                 titleToId := Map_add (titleToId st) normalizedTitle sid\<rparr>)
      | (None, None) \<Rightarrow>
          let newId = generateId now;
              newSong =
              \<lparr>song_id = newId, title = ttl, artist = art, lyrics = lyr,
               scrollSpeed = speed, tempo = tmp, backgroundColor = bg, textColor = fg,
               textSize = sz, isBold = bold, song_createdAt = now, song_updatedAt = now,
               linesPerScroll = lps, colorRanges = ranges, image = img\<rparr>
          in (\<lparr>success = True, resp_songId = Some newId, errorMessage = None,
               replaceExistingPrompt = False\<rparr>,
              st\<lparr>songs := Map_add (songs st) newId newSong,
                 titleToId := Map_add (titleToId st) normalizedTitle newId\<rparr>))"

text \<open>
  \<open>deleteSong\<close>: the \<open>for\<close> loop over \<open>setLists.entries()\<close> is a fold over the entries
  of the set-list map, in key order.
\<close>

definition deleteSong :: "'b actor_state \<Rightarrow> Text \<Rightarrow> error + 'b actor_state" where
  "deleteSong st ident =
     (case Map_get (songs st) ident of
        None \<Rightarrow> Inl SongNotFound
      | Some song \<Rightarrow>
          let normalizedTitle = normalizeTitle (title song);
              titleToId' =
                (if (case Map_get (titleToId st) normalizedTitle of
                       Some existingId \<Rightarrow> existingId = ident
                     | None \<Rightarrow> False)
                 then Map_remove (titleToId st) normalizedTitle
                 else titleToId st);
              songs' = Map_remove (songs st) ident;
              positions' =
                fold (\<lambda>e tbl. removeSongFromSetListPositions tbl (fst e) ident)
                  (Map_entries (setLists st)) (setListSongPositions st)
          in Inr (st\<lparr>songs := songs', titleToId := titleToId',
                     setListSongPositions := positions'\<rparr>))"

definition getSong :: "'b actor_state \<Rightarrow> Text \<Rightarrow> error + 'b Song" where
  "getSong st ident =
     (case Map_get (songs st) ident of None \<Rightarrow> Inl SongNotFound | Some song \<Rightarrow> Inr song)"

subsection \<open>Set list management\<close>

definition createSetList ::
  "int \<Rightarrow> 'b actor_state \<Rightarrow> Text \<Rightarrow> Text list \<Rightarrow> Text \<times> 'b actor_state" where
  "createSetList now st nm ids =
     (let ident = generateId now;
          setList = \<lparr>setlist_id = ident, name = nm, songIds = ids,
                     setlist_createdAt = now, setlist_updatedAt = now\<rparr>
      in (ident, st\<lparr>setLists := Map_add (setLists st) ident setList\<rparr>))"

definition updateSetList ::
  "int \<Rightarrow> 'b actor_state \<Rightarrow> Text \<Rightarrow> Text \<Rightarrow> Text list \<Rightarrow> error + 'b actor_state" where
  "updateSetList now st ident nm ids =
     (case Map_get (setLists st) ident of
        None \<Rightarrow> Inl SetListNotFound
      | Some existingSetList \<Rightarrow>
          let updatedSetList =
                \<lparr>setlist_id = ident, name = nm, songIds = ids,
                 setlist_createdAt = setlist_createdAt existingSetList,
                 setlist_updatedAt = now\<rparr>
          in Inr (st\<lparr>setLists := Map_add (setLists st) ident updatedSetList\<rparr>))"

definition deleteSetList :: "'b actor_state \<Rightarrow> Text \<Rightarrow> error + 'b actor_state" where
  "deleteSetList st ident =
     (if \<not> Map_containsKey (setLists st) ident then Inl SetListNotFound
      else Inr (st\<lparr>setLists := Map_remove (setLists st) ident,
                   setListSongPositions := Map_remove (setListSongPositions st) ident\<rparr>))"

text \<open>
  \<open>getSongsInSetList\<close>: the loop appends the song of every id that resolves and does
  nothing for the others.
\<close>

fun resolveSongs :: "'b Song Map \<Rightarrow> Text list \<Rightarrow> 'b Song list" where
  "resolveSongs sm [] = []"
| "resolveSongs sm (sid # rest) =
     (case Map_get sm sid of
        Some song \<Rightarrow> song # resolveSongs sm rest
      | None \<Rightarrow> resolveSongs sm rest)"

definition getSongsInSetList :: "'b actor_state \<Rightarrow> Text \<Rightarrow> error + 'b Song list" where
  "getSongsInSetList st setListId =
     (case Map_get (setLists st) setListId of
        None \<Rightarrow> Inl SetListNotFound
      | Some setList \<Rightarrow> Inr (resolveSongs (songs st) (songIds setList)))"

text \<open>\<open>findIndex\<close> gives \<open>null\<close> exactly when no element passes the test.\<close>

definition moveSongInSetList ::
  "'b actor_state \<Rightarrow> Text \<Rightarrow> Text \<Rightarrow> nat \<Rightarrow> error + 'b actor_state" where
  "moveSongInSetList st setListId sid newPosition =
     (case Map_get (setLists st) setListId of
        None \<Rightarrow> Inl SetListNotFound
      | Some setList \<Rightarrow>
          if find (\<lambda>i. i = sid) (songIds setList) = None then Inl SongNotFoundInSetList
          else
            let tbl = updateSongPositionInSetList (setListSongPositions st) setListId sid newPosition;
                tbl' = reorderSetList tbl setListId
            in Inr (st\<lparr>setListSongPositions := tbl'\<rparr>))"

subsection \<open>Utility queries\<close>

definition isTitleUnique :: "'b actor_state \<Rightarrow> Text \<Rightarrow> bool" where
  "isTitleUnique st ttl =
     (let normalizedTitle = normalizeTitle ttl
      in \<not> Map_containsKey (titleToId st) normalizedTitle)"

definition exportData :: "'b actor_state \<Rightarrow> 'b Snapshot" where
  "exportData st =
     \<lparr>snap_songs = Map_values (songs st), snap_setLists = Map_values (setLists st)\<rparr>"

text \<open>
  The \<open>while\<close> loop of \<open>importData\<close> that fills the position list of one set list;
  \<open>i < ids.size()\<close> guards the read \<open>ids[i]\<close>.
\<close>

function positionsLoop ::
  "Text list \<Rightarrow> nat \<Rightarrow> SetListSongPosition list \<Rightarrow> SetListSongPosition list" where
  "positionsLoop ids i positions =
     (if i < length ids
      then positionsLoop ids (i + 1) (positions @ [\<lparr>songId = ids ! i, position = i + 1\<rparr>])
      else positions)"
  by pat_completeness auto
termination
  by (relation "measure (\<lambda>(ids, i, positions). length ids - i)") auto

declare positionsLoop.simps [simp del]

definition importSong :: "'b Song \<Rightarrow> 'b actor_state \<Rightarrow> 'b actor_state" where
  "importSong song st =
     (let normalizedTitle = normalizeTitle (title song)
      in st\<lparr>songs := Map_add (songs st) (song_id song) song,
            titleToId := Map_add (titleToId st) normalizedTitle (song_id song)\<rparr>)"

definition importSetList :: "SetList \<Rightarrow> 'b actor_state \<Rightarrow> 'b actor_state" where
  "importSetList setList st =
     (let positions = positionsLoop (songIds setList) 0 []
      in st\<lparr>setLists := Map_add (setLists st) (setlist_id setList) setList,
            setListSongPositions :=
              Map_add (setListSongPositions st) (setlist_id setList) positions\<rparr>)"

definition importData :: "'b actor_state \<Rightarrow> 'b Snapshot \<Rightarrow> 'b actor_state" where
  "importData st data =
     (let cleared = st\<lparr>songs := Map_empty, setLists := Map_empty, titleToId := Map_empty,
                       setListSongPositions := Map_empty\<rparr>;
          withSongs = fold importSong (snap_songs data) cleared
      in fold importSetList (snap_setLists data) withSongs)"

definition getSetListSongInfo ::
  "'b actor_state \<Rightarrow> Text \<Rightarrow> error + (SetList \<times> SetListSongPosition list)" where
  "getSetListSongInfo st setListId =
     (case Map_get (setLists st) setListId of
        None \<Rightarrow> Inl SetListNotFound
      | Some setList \<Rightarrow>
          let positions = (case Map_get (setListSongPositions st) setListId of
                             None \<Rightarrow> []
                           | Some pos \<Rightarrow> pos)
          in Inr (setList, positions))"

subsection \<open>Example stores\<close>

text \<open>
  The store after \<open>saveSong(null, "X", ...)\<close> at time 100 on the empty actor: one
  song, titled \<open>X\<close>, under the generated identity.
\<close>

definition store_with_X :: "unit actor_state" where
  "store_with_X =
     snd (saveSong 100 initial_state None ''X'' ''artist'' ''la la'' 5 120 ''#000000''
            ''#ffffff'' 24 False 1 [] False None)"

text \<open>The store after importing one set list \<open>L\<close> with the id sequence \<open>[s1, s2]\<close>.\<close>

definition list_L :: SetList where
  "list_L = \<lparr>setlist_id = ''L'', name = ''A'', songIds = [''s1'', ''s2''],
             setlist_createdAt = 100, setlist_updatedAt = 100\<rparr>"

definition store_with_L :: "unit actor_state" where
  "store_with_L = importData initial_state \<lparr>snap_songs = [], snap_setLists = [list_L]\<rparr>"

text \<open>
  The store after importing two songs and the set list \<open>L\<close> that lists both of them.
\<close>

definition example_song :: "Text \<Rightarrow> Text \<Rightarrow> unit Song" where
  "example_song sid ttl =
     \<lparr>song_id = sid, title = ttl, artist = ''artist'', lyrics = ''la la'', scrollSpeed = 5,
      tempo = 120, backgroundColor = ''#000000'', textColor = ''#ffffff'', textSize = 24,
      isBold = False, song_createdAt = 100, song_updatedAt = 100, linesPerScroll = 1,
      colorRanges = [], image = None\<rparr>"

definition store_with_songs :: "unit actor_state" where
  "store_with_songs =
     importData initial_state
       \<lparr>snap_songs = [example_song ''s1'' ''One'', example_song ''s2'' ''Two''],
        snap_setLists = [list_L]\<rparr>"

text \<open>A snapshot whose two songs have the same normalized title, and the set list \<open>L\<close>.\<close>

definition colliding_snapshot :: "unit Snapshot" where
  "colliding_snapshot =
     \<lparr>snap_songs = [example_song ''s1'' ''One'', example_song ''s2'' '' one''],
      snap_setLists = [list_L]\<rparr>"

section \<open>Properties of the color-range normalizer\<close>

lemma noOverlapsFrom_subset:
  "set (noOverlapsFrom c hs) \<subseteq> set hs"
  by (induction hs arbitrary: c) auto

lemma noOverlapsFrom_after_cursor:
  assumes "\<forall>g \<in> set hs. start g < endpos g"
    and "h \<in> set (noOverlapsFrom c hs)"
  shows "c \<le> start h"
  using assms
proof (induction hs arbitrary: c)
  case Nil
  then show ?case by simp
next
  case (Cons g hs)
  show ?case
  proof (cases "start g \<ge> c")
    case True
    with Cons.prems have "h = g \<or> h \<in> set (noOverlapsFrom (endpos g) hs)" by simp
    then show ?thesis
    proof
      assume "h = g"
      with True show ?thesis by simp
    next
      assume "h \<in> set (noOverlapsFrom (endpos g) hs)"
      with Cons.IH Cons.prems(1) have "endpos g \<le> start h" by simp
      moreover from Cons.prems(1) have "start g < endpos g" by simp
      ultimately show ?thesis using True by simp
    qed
  next
    case False
    with Cons show ?thesis by simp
  qed
qed

lemma noOverlapsFrom_disjoint:
  assumes "\<forall>g \<in> set hs. start g < endpos g"
  shows "sorted_wrt (\<lambda>a b. endpos a \<le> start b) (noOverlapsFrom c hs)"
  using assms
proof (induction hs arbitrary: c)
  case Nil
  then show ?case by simp
next
  case (Cons g hs)
  then show ?case
    by (auto dest: noOverlapsFrom_after_cursor [rotated])
qed

lemma rebuildColorRanges_valid:
  assumes "h \<in> set (rebuildColorRanges t R)"
  shows "0 \<le> start h \<and> start h < endpos h \<and> endpos h \<le> int (length t)"
proof -
  let ?V = "filter (\<lambda>h. start h < endpos h \<and> start h \<ge> 0 \<and> endpos h \<le> int (length t))
              (sort_key start R)"
  from assms have "h \<in> set (noOverlapsFrom 0 ?V)"
    by (simp add: rebuildColorRanges_def Let_def split: if_splits)
  with noOverlapsFrom_subset have "h \<in> set ?V" by blast
  then show ?thesis by simp
qed

lemma rebuildColorRanges_disjoint:
  "sorted_wrt (\<lambda>a b. endpos a \<le> start b) (rebuildColorRanges t R)"
  by (simp add: rebuildColorRanges_def Let_def noOverlapsFrom_disjoint)

text \<open>
  Claim C5. For every text and every list of color ranges, overlapping or out of bounds,
  \<open>rebuildColorRanges\<close> returns ranges in ascending order of \<open>start\<close>, no two of
  which overlap (an earlier one ends at or before the start of a later one), each with
  \<open>0 \<le> start < end \<le> length text\<close>.
\<close>

theorem rebuildColorRanges_normalized:
  "sorted (map start (rebuildColorRanges t R)) \<and>
   (\<forall>i j. i < j \<and> j < length (rebuildColorRanges t R) \<longrightarrow>
      endpos (rebuildColorRanges t R ! i) \<le> start (rebuildColorRanges t R ! j)) \<and>
   (\<forall>h \<in> set (rebuildColorRanges t R).
      0 \<le> start h \<and> start h < endpos h \<and> endpos h \<le> int (length t))"
proof (intro conjI)
  let ?out = "rebuildColorRanges t R"
  have dis: "sorted_wrt (\<lambda>a b. endpos a \<le> start b) ?out"
    by (rule rebuildColorRanges_disjoint)
  have "sorted_wrt (\<lambda>a b. start a \<le> start b) ?out"
  proof (rule sorted_wrt_mono_rel [OF _ dis])
    fix a b :: ColorHighlight
    assume "a \<in> set ?out" and "endpos a \<le> start b"
    moreover from \<open>a \<in> set ?out\<close> have "start a < endpos a"
      using rebuildColorRanges_valid by blast
    ultimately show "start a \<le> start b" by simp
  qed
  then show "sorted (map start ?out)"
    by (simp add: sorted_map)
  from dis show "\<forall>i j. i < j \<and> j < length ?out \<longrightarrow> endpos (?out ! i) \<le> start (?out ! j)"
    by (simp add: sorted_wrt_iff_nth_less)
  show "\<forall>h \<in> set ?out. 0 \<le> start h \<and> start h < endpos h \<and> endpos h \<le> int (length t)"
    using rebuildColorRanges_valid by blast
qed

theorem rebuildColorRanges_normalized_witness:
  "rebuildColorRanges ''hello world''
     [\<lparr>start = 3, endpos = 5, color = ''red''\<rparr>, \<lparr>start = 0, endpos = 4, color = ''green''\<rparr>,
      \<lparr>start = 4, endpos = 20, color = ''blue''\<rparr>, \<lparr>start = 4, endpos = 6, color = ''pink''\<rparr>,
      \<lparr>start = -1, endpos = 2, color = ''grey''\<rparr>]
   = [\<lparr>start = 0, endpos = 4, color = ''green''\<rparr>, \<lparr>start = 4, endpos = 6, color = ''pink''\<rparr>]
   \<and> sorted (map start [\<lparr>start = 0, endpos = 4, color = ''green''\<rparr>,
                          \<lparr>start = 4, endpos = 6, color = ''pink''\<rparr>])
   \<and> endpos \<lparr>start = 0, endpos = 4, color = ''green''\<rparr>
        \<le> start \<lparr>start = 4, endpos = 6, color = ''pink''\<rparr>
   \<and> 0 \<le> start \<lparr>start = 0, endpos = 4, color = ''green''\<rparr>
   \<and> endpos \<lparr>start = 4, endpos = 6, color = ''pink''\<rparr> \<le> int (length ''hello world'')"
  using rebuildColorRanges_normalized
    [of "''hello world''"
        "[\<lparr>start = 3, endpos = 5, color = ''red''\<rparr>, \<lparr>start = 0, endpos = 4, color = ''green''\<rparr>,
          \<lparr>start = 4, endpos = 20, color = ''blue''\<rparr>, \<lparr>start = 4, endpos = 6, color = ''pink''\<rparr>,
          \<lparr>start = -1, endpos = 2, color = ''grey''\<rparr>]"]
  by (simp add: rebuildColorRanges_def)

section \<open>Properties of the store\<close>

subsection \<open>Lookups in the ordered map\<close>

lemma Map_get_add:
  "Map_get (Map_add m k v) k' = (if k' = k then Some v else Map_get m k')"
  by (induction m) (auto simp: Map_get_def)

lemma Map_get_remove:
  "Map_get (Map_remove m k) k' = (if k' = k then None else Map_get m k')"
  by (induction m) (auto simp: Map_get_def Map_remove_def)

subsection \<open>The example stores, evaluated\<close>

lemma generateId_100: "generateId 100 = ''1000a''"
  by (simp add: generateId_def randomPart_def randomString_def smod_int_alt_def
      Int_toText_def Nat_toText.simps digit_def)

lemma normalizeTitle_examples:
  "normalizeTitle ''X'' = ''x''" "normalizeTitle ''x '' = ''x''" "normalizeTitle ''Y'' = ''y''"
  by (simp_all add: normalizeTitle_def trim_def toLower_def toLowerChar_def)

lemma store_with_X_eq:
  "store_with_X =
     \<lparr>songs = [(''1000a'',
         \<lparr>song_id = ''1000a'', title = ''X'', artist = ''artist'', lyrics = ''la la'',
          scrollSpeed = 5, tempo = 120, backgroundColor = ''#000000'', textColor = ''#ffffff'',
          textSize = 24, isBold = False, song_createdAt = 100, song_updatedAt = 100,
          linesPerScroll = 1, colorRanges = [], image = None\<rparr>)],
      setLists = [], titleToId = [(''x'', ''1000a'')], setListSongPositions = [],
      fileHandles = []\<rparr>"
  by (simp add: store_with_X_def saveSong_def initial_state_def Map_empty_def Map_get_def
      generateId_100 normalizeTitle_examples Let_def)

lemma store_with_L_eq:
  "store_with_L =
     \<lparr>songs = [], setLists = [(''L'', list_L)], titleToId = [],
      setListSongPositions =
        [(''L'', [\<lparr>songId = ''s1'', position = 1\<rparr>, \<lparr>songId = ''s2'', position = 2\<rparr>])],
      fileHandles = []\<rparr>"
  by (simp add: store_with_L_def importData_def importSetList_def initial_state_def
      Map_empty_def list_L_def positionsLoop.simps Let_def)

subsection \<open>Set lists: creation and moves\<close>

text \<open>
  \<open>createSetList\<close> leaves the Position Side-Table as it is, and the state that
  \<open>moveSongInSetList\<close> returns does not depend on \<open>newPosition\<close>: \<open>reorderSetList\<close>
  overwrites every position with the index of its entry.
\<close>

lemma createSetList_positions_unchanged:
  "setListSongPositions (snd (createSetList now st nm ids)) = setListSongPositions st"
  by (simp add: createSetList_def Let_def)

lemma Map_add_twice:
  "Map_add (Map_add m k a) k b = Map_add m k b"
  by (induction m) auto

lemma renumber_ignores_positions:
  "map (\<lambda>(i, pos). pos\<lparr>position := Suc i\<rparr>)
     (enumerate n (map (\<lambda>pos. if songId pos = sid then pos\<lparr>position := p\<rparr> else pos) ps))
   = map (\<lambda>(i, pos). pos\<lparr>position := Suc i\<rparr>) (enumerate n ps)"
  by (induction ps arbitrary: n) auto

lemma reorder_after_update:
  "reorderSetList (updateSongPositionInSetList tbl l sid p) l = reorderSetList tbl l"
  by (cases "Map_get tbl l")
    (simp_all add: reorderSetList_def updateSongPositionInSetList_def Map_get_add
      Map_add_twice renumber_ignores_positions)

lemma moveSongInSetList_ignores_newPosition:
  "moveSongInSetList st l sid p = moveSongInSetList st l sid q"
  by (simp add: moveSongInSetList_def Let_def reorder_after_update split: option.splits)

text \<open>
  Claim C1. \<open>createSetList(name, songIds)\<close> should build the Position Side-Table of the
  new set list from the given order, so that \<open>getSetListSongInfo\<close> reports the positions
  \<open>[{s1,1},{s2,2}]\<close> after \<open>createSetList("A", ["s1","s2"])\<close>. The code stores the set
  list only: on the empty actor the call returns the identity \<open>1000a\<close> at time 100 and
  leaves \<open>setListSongPositions\<close> empty, and \<open>getSetListSongInfo\<close> on that identity
  reports no positions.
\<close>

theorem createSetList_builds_no_positions:
  "createSetList 100 (initial_state :: unit actor_state) ''A'' [''s1'', ''s2'']
     = (''1000a'',
        initial_state\<lparr>setLists :=
          [(''1000a'', \<lparr>setlist_id = ''1000a'', name = ''A'', songIds = [''s1'', ''s2''],
                       setlist_createdAt = 100, setlist_updatedAt = 100\<rparr>)]\<rparr>)
   \<and> getSetListSongInfo
         (snd (createSetList 100 (initial_state :: unit actor_state) ''A'' [''s1'', ''s2'']))
         ''1000a''
     = Inr (\<lparr>setlist_id = ''1000a'', name = ''A'', songIds = [''s1'', ''s2''],
              setlist_createdAt = 100, setlist_updatedAt = 100\<rparr>, [])"
  by (simp add: createSetList_def getSetListSongInfo_def generateId_100 initial_state_def
      Map_empty_def Map_get_def Let_def)

text \<open>
  Claim C2. \<open>moveSongInSetList(id, "s2", 1)\<close> on a two-song list \<open>[s1, s2]\<close> should put
  \<open>s2\<close> first. On the store that holds the list \<open>L\<close> with the positions
  \<open>[{s1,1},{s2,2}]\<close>, the call succeeds and the positions are again
  \<open>[{s1,1},{s2,2}]\<close>: \<open>reorderSetList\<close> renumbers the entries in the order of the list
  it finds, without sorting them by the position just written.
\<close>

theorem moveSongInSetList_keeps_order:
  "getSetListSongInfo store_with_L ''L''
     = Inr (list_L, [\<lparr>songId = ''s1'', position = 1\<rparr>, \<lparr>songId = ''s2'', position = 2\<rparr>])
   \<and> (\<exists>st'. moveSongInSetList store_with_L ''L'' ''s2'' 1 = Inr st'
        \<and> getSetListSongInfo st' ''L''
            = Inr (list_L, [\<lparr>songId = ''s1'', position = 1\<rparr>, \<lparr>songId = ''s2'', position = 2\<rparr>]))"
  by (simp add: store_with_L_eq moveSongInSetList_def getSetListSongInfo_def Map_get_def
      updateSongPositionInSetList_def reorderSetList_def list_L_def Let_def)

subsection \<open>Saving songs\<close>

text \<open>
  A \<open>saveSong\<close> with an id changes the Title Index at the new normalized title only: no
  branch of \<open>saveSong\<close> removes an entry.
\<close>

lemma saveSong_with_id_keeps_other_entries:
  "k \<noteq> normalizeTitle ttl \<Longrightarrow>
     Map_get (titleToId (snd (saveSong now st (Some sid) ttl art lyr speed tmp bg fg sz bold lps
                                 ranges rep img))) k
       = Map_get (titleToId st) k"
  by (simp add: saveSong_def Let_def Map_get_add)

text \<open>
  Claim C3. A \<open>saveSong\<close> without id whose normalized title is in the Title Index, with
  \<open>replaceExisting = true\<close>, should overwrite the song under its identity and keep its
  creation timestamp. On the store whose song \<open>X\<close> was created at time 100, saving
  \<open>"x "\<close> at time 200 with \<open>replaceExisting = true\<close> returns the existing identity and
  leaves the song with the creation timestamp 200.
\<close>

theorem saveSong_replace_resets_createdAt:
  "map_option song_createdAt (Map_get (songs store_with_X) ''1000a'') = Some 100
   \<and> Map_get (titleToId store_with_X) (normalizeTitle ''x '') = Some ''1000a''
   \<and> resp_songId (fst (saveSong 200 store_with_X None ''x '' ''artist'' ''la la'' 5 120
         ''#000000'' ''#ffffff'' 24 False 1 [] True None)) = Some ''1000a''
   \<and> map_option song_createdAt
         (Map_get (songs (snd (saveSong 200 store_with_X None ''x '' ''artist'' ''la la'' 5 120
            ''#000000'' ''#ffffff'' 24 False 1 [] True None))) ''1000a'') = Some 200"
  by (simp add: store_with_X_eq saveSong_def Map_get_def normalizeTitle_examples Let_def)

text \<open>
  Claim C4. After \<open>saveSong(s.id, newTitle, ...)\<close> with a different normalized title,
  the Title Index should hold no entry under the old normalized title that points at
  \<open>s.id\<close>. On the store whose song \<open>1000a\<close> is titled \<open>X\<close>, saving it under the title
  \<open>Y\<close> retitles the song and leaves the entry of \<open>x\<close> pointing at \<open>1000a\<close>, so that
  \<open>isTitleUnique("X")\<close> is false although no song is titled \<open>X\<close>.
\<close>

theorem saveSong_retitle_keeps_old_entry:
  "Map_get (songs store_with_X) ''1000a'' \<noteq> None
   \<and> normalizeTitle ''Y'' \<noteq> normalizeTitle ''X''
   \<and> map_option title (Map_get (songs (snd (saveSong 200 store_with_X (Some ''1000a'') ''Y''
         ''artist'' ''la la'' 5 120 ''#000000'' ''#ffffff'' 24 False 1 [] False None)))
         ''1000a'') = Some ''Y''
   \<and> Map_get (titleToId (snd (saveSong 200 store_with_X (Some ''1000a'') ''Y''
         ''artist'' ''la la'' 5 120 ''#000000'' ''#ffffff'' 24 False 1 [] False None)))
         (normalizeTitle ''X'') = Some ''1000a''
   \<and> \<not> isTitleUnique (snd (saveSong 200 store_with_X (Some ''1000a'') ''Y''
         ''artist'' ''la la'' 5 120 ''#000000'' ''#ffffff'' 24 False 1 [] False None)) ''X''"
  by (simp add: store_with_X_eq saveSong_def Map_get_def normalizeTitle_examples Let_def
      isTitleUnique_def Map_containsKey_def)

text \<open>
  Claim C9. A \<open>saveSong\<close> with an id that is not in the Song Store does not fail: it
  stores a new song under exactly that id, with \<open>createdAt\<close> and \<open>updatedAt\<close> both the
  current time, and points the Title Index entry of the normalized title at that id.
\<close>

theorem saveSong_unknown_id_upserts:
  assumes "Map_get (songs st) sid = None"
  shows "\<exists>st'. saveSong now st (Some sid) ttl art lyr speed tmp bg fg sz bold lps ranges rep img
            = (\<lparr>success = True, resp_songId = Some sid, errorMessage = None,
                replaceExistingPrompt = False\<rparr>, st')
          \<and> Map_get (songs st') sid
            = Some \<lparr>song_id = sid, title = ttl, artist = art, lyrics = lyr, scrollSpeed = speed,
                    tempo = tmp, backgroundColor = bg, textColor = fg, textSize = sz,
                    isBold = bold, song_createdAt = now, song_updatedAt = now,
                    linesPerScroll = lps, colorRanges = ranges, image = img\<rparr>
          \<and> Map_get (titleToId st') (normalizeTitle ttl) = Some sid"
  using assms by (simp add: saveSong_def Let_def Map_get_add)

theorem saveSong_unknown_id_upserts_witness:
  "Map_get (songs (initial_state :: unit actor_state)) ''abc'' = None
   \<and> (\<exists>st'. saveSong 7 (initial_state :: unit actor_state) (Some ''abc'') ''X'' ''artist''
               ''la la'' 5 120 ''#000000'' ''#ffffff'' 24 False 1 [] False None
            = (\<lparr>success = True, resp_songId = Some ''abc'', errorMessage = None,
                replaceExistingPrompt = False\<rparr>, st')
          \<and> Map_get (songs st') ''abc''
            = Some \<lparr>song_id = ''abc'', title = ''X'', artist = ''artist'', lyrics = ''la la'',
                    scrollSpeed = 5, tempo = 120, backgroundColor = ''#000000'',
                    textColor = ''#ffffff'', textSize = 24, isBold = False, song_createdAt = 7,
                    song_updatedAt = 7, linesPerScroll = 1, colorRanges = [], image = None\<rparr>
          \<and> Map_get (titleToId st') (normalizeTitle ''X'') = Some ''abc'')"
proof -
  have h: "Map_get (songs (initial_state :: unit actor_state)) ''abc'' = None"
    by (simp add: initial_state_def Map_empty_def Map_get_def)
  from h saveSong_unknown_id_upserts [OF h] show ?thesis by blast
qed

text \<open>
  Claim C10. For every input, \<open>saveSong\<close> answers \<open>success = true\<close> with no error message
  and \<open>replaceExistingPrompt = false\<close>, and it writes on every branch: the song with the
  given fields is stored under the returned identity, and the Title Index entry of the
  normalized title points at that identity.
\<close>

theorem saveSong_always_succeeds:
  "\<exists>sid created st'.
     saveSong now st ident ttl art lyr speed tmp bg fg sz bold lps ranges rep img
       = (\<lparr>success = True, resp_songId = Some sid, errorMessage = None,
           replaceExistingPrompt = False\<rparr>, st')
     \<and> Map_get (songs st') sid
       = Some \<lparr>song_id = sid, title = ttl, artist = art, lyrics = lyr, scrollSpeed = speed,
               tempo = tmp, backgroundColor = bg, textColor = fg, textSize = sz,
               isBold = bold, song_createdAt = created, song_updatedAt = now,
               linesPerScroll = lps, colorRanges = ranges, image = img\<rparr>
     \<and> Map_get (titleToId st') (normalizeTitle ttl) = Some sid"
proof (cases ident)
  case (Some sid)
  then show ?thesis
    by (simp add: saveSong_def Let_def Map_get_add)
next
  case None
  show ?thesis
  proof (cases "Map_get (titleToId st) (normalizeTitle ttl)")
    case None
    with \<open>ident = None\<close> show ?thesis
      by (simp add: saveSong_def Let_def Map_get_add)
  next
    case (Some existingSongId)
    with \<open>ident = None\<close> show ?thesis
      by (cases rep) (simp_all add: saveSong_def Let_def Map_get_add)
  qed
qed

subsection \<open>Deleting songs\<close>

lemma removeSongFromSetListPositions_get:
  "Map_get (removeSongFromSetListPositions tbl k sid) k'
     = (if k' = k then map_option (filter (\<lambda>pos. songId pos \<noteq> sid)) (Map_get tbl k)
        else Map_get tbl k')"
  by (cases "Map_get tbl k") (auto simp: removeSongFromSetListPositions_def Map_get_add)

lemma removeSong_fold_get:
  "Map_get (fold (\<lambda>e tbl. removeSongFromSetListPositions tbl (fst e) sid) es tbl) k
     = (if k \<in> fst ` set es
        then map_option (filter (\<lambda>pos. songId pos \<noteq> sid)) (Map_get tbl k)
        else Map_get tbl k)"
proof (induction es arbitrary: tbl)
  case Nil
  show ?case by simp
next
  case (Cons e es)
  show ?case
    by (cases "Map_get tbl k")
      (auto simp: Cons.IH removeSongFromSetListPositions_get option.map_comp comp_def)
qed

lemma Map_containsKey_entries:
  "Map_containsKey m k \<longleftrightarrow> k \<in> fst ` set (Map_entries m)"
  by (simp add: Map_containsKey_def Map_get_def Map_entries_def map_of_eq_None_iff)

lemma resolveSongs_remove:
  "resolveSongs (Map_remove sm sid) ids = resolveSongs sm (filter (\<lambda>s. s \<noteq> sid) ids)"
  by (induction ids) (auto simp: Map_get_remove split: option.splits)

text \<open>
  Claim C7. \<open>deleteSong(id)\<close> fails with "Song not found" when the id is absent from the
  Song Store. Otherwise it removes the song and nothing else from the Song Store, the
  Title Index loses the entry of the song's normalized title when that entry points at
  the id (its other entries are unchanged), every set list keeps its id sequence, the
  position list of every set list loses exactly its entries for the id, and
  \<open>getSongsInSetList\<close> on any set list returns the songs of the ids other than the
  deleted one that resolve.
\<close>

theorem deleteSong_spec:
  "(Map_get (songs st) sid = None \<longrightarrow> deleteSong st sid = Inl SongNotFound) \<and>
   (\<forall>song. Map_get (songs st) sid = Some song \<longrightarrow>
      (\<exists>st'. deleteSong st sid = Inr st'
         \<and> (\<forall>k. Map_get (songs st') k = (if k = sid then None else Map_get (songs st) k))
         \<and> Map_get (titleToId st') (normalizeTitle (title song))
             = (if Map_get (titleToId st) (normalizeTitle (title song)) = Some sid then None
                else Map_get (titleToId st) (normalizeTitle (title song)))
         \<and> (\<forall>k. k \<noteq> normalizeTitle (title song) \<longrightarrow>
               Map_get (titleToId st') k = Map_get (titleToId st) k)
         \<and> setLists st' = setLists st
         \<and> (\<forall>l. Map_get (setListSongPositions st') l
               = (if Map_containsKey (setLists st) l
                  then map_option (filter (\<lambda>pos. songId pos \<noteq> sid))
                         (Map_get (setListSongPositions st) l)
                  else Map_get (setListSongPositions st) l))
         \<and> (\<forall>l setList. Map_get (setLists st) l = Some setList \<longrightarrow>
               getSongsInSetList st' l
                 = Inr (resolveSongs (songs st) (filter (\<lambda>s. s \<noteq> sid) (songIds setList))))))"
proof (intro conjI allI impI)
  assume "Map_get (songs st) sid = None"
  then show "deleteSong st sid = Inl SongNotFound"
    by (simp add: deleteSong_def)
next
  fix song
  assume found: "Map_get (songs st) sid = Some song"
  let ?nt = "normalizeTitle (title song)"
  let ?idx = "if (case Map_get (titleToId st) ?nt of Some existingId \<Rightarrow> existingId = sid
                  | None \<Rightarrow> False)
              then Map_remove (titleToId st) ?nt else titleToId st"
  let ?tbl = "fold (\<lambda>e tbl. removeSongFromSetListPositions tbl (fst e) sid)
                (Map_entries (setLists st)) (setListSongPositions st)"
  let ?st' = "st\<lparr>songs := Map_remove (songs st) sid, titleToId := ?idx,
                 setListSongPositions := ?tbl\<rparr>"
  have res: "deleteSong st sid = Inr ?st'"
    using found by (simp add: deleteSong_def Let_def)
  have a: "\<forall>k. Map_get (songs ?st') k = (if k = sid then None else Map_get (songs st) k)"
    by (simp add: Map_get_remove)
  have b: "Map_get (titleToId ?st') ?nt
             = (if Map_get (titleToId st) ?nt = Some sid then None
                else Map_get (titleToId st) ?nt)"
    by (auto simp: Map_get_remove split: option.splits)
  have c: "\<forall>k. k \<noteq> ?nt \<longrightarrow> Map_get (titleToId ?st') k = Map_get (titleToId st) k"
    by (simp add: Map_get_remove)
  have d: "setLists ?st' = setLists st"
    by simp
  have e: "\<forall>l. Map_get (setListSongPositions ?st') l
             = (if Map_containsKey (setLists st) l
                then map_option (filter (\<lambda>pos. songId pos \<noteq> sid))
                       (Map_get (setListSongPositions st) l)
                else Map_get (setListSongPositions st) l)"
    by (simp add: removeSong_fold_get Map_containsKey_entries)
  have f: "\<forall>l setList. Map_get (setLists st) l = Some setList \<longrightarrow>
             getSongsInSetList ?st' l
               = Inr (resolveSongs (songs st) (filter (\<lambda>s. s \<noteq> sid) (songIds setList)))"
    by (simp add: getSongsInSetList_def resolveSongs_remove)
  from res a b c d e f
  show "\<exists>st'. deleteSong st sid = Inr st'
         \<and> (\<forall>k. Map_get (songs st') k = (if k = sid then None else Map_get (songs st) k))
         \<and> Map_get (titleToId st') (normalizeTitle (title song))
             = (if Map_get (titleToId st) (normalizeTitle (title song)) = Some sid then None
                else Map_get (titleToId st) (normalizeTitle (title song)))
         \<and> (\<forall>k. k \<noteq> normalizeTitle (title song) \<longrightarrow>
               Map_get (titleToId st') k = Map_get (titleToId st) k)
         \<and> setLists st' = setLists st
         \<and> (\<forall>l. Map_get (setListSongPositions st') l
               = (if Map_containsKey (setLists st) l
                  then map_option (filter (\<lambda>pos. songId pos \<noteq> sid))
                         (Map_get (setListSongPositions st) l)
                  else Map_get (setListSongPositions st) l))
         \<and> (\<forall>l setList. Map_get (setLists st) l = Some setList \<longrightarrow>
               getSongsInSetList st' l
                 = Inr (resolveSongs (songs st) (filter (\<lambda>s. s \<noteq> sid) (songIds setList))))"
    by (intro exI [of _ ?st'] conjI)
qed

lemma store_with_songs_eq:
  "store_with_songs =
     \<lparr>songs = [(''s1'', example_song ''s1'' ''One''), (''s2'', example_song ''s2'' ''Two'')],
      setLists = [(''L'', list_L)],
      titleToId = [(''one'', ''s1''), (''two'', ''s2'')],
      setListSongPositions =
        [(''L'', [\<lparr>songId = ''s1'', position = 1\<rparr>, \<lparr>songId = ''s2'', position = 2\<rparr>])],
      fileHandles = []\<rparr>"
  by (simp add: store_with_songs_def importData_def importSetList_def importSong_def
      initial_state_def Map_empty_def list_L_def positionsLoop.simps Let_def example_song_def
      normalizeTitle_def trim_def toLower_def toLowerChar_def)


theorem deleteSong_spec_witness:
  "deleteSong store_with_songs ''zz'' = Inl SongNotFound
   \<and> Map_get (songs store_with_songs) ''s1'' = Some (example_song ''s1'' ''One'')
   \<and> (\<exists>st'. deleteSong store_with_songs ''s1'' = Inr st'
         \<and> Map_get (songs st') ''s1'' = None
         \<and> Map_get (songs st') ''s2'' = Some (example_song ''s2'' ''Two'')
         \<and> Map_get (titleToId st') ''one'' = None
         \<and> Map_get (titleToId st') ''two'' = Some ''s2''
         \<and> Map_get (setLists st') ''L'' = Some list_L
         \<and> Map_get (setListSongPositions st') ''L'' = Some [\<lparr>songId = ''s2'', position = 2\<rparr>]
         \<and> getSongsInSetList st' ''L'' = Inr [example_song ''s2'' ''Two''])"
proof -
  have none: "Map_get (songs store_with_songs) ''zz'' = None"
    by (simp add: store_with_songs_eq Map_get_def)
  have some: "Map_get (songs store_with_songs) ''s1'' = Some (example_song ''s1'' ''One'')"
    by (simp add: store_with_songs_eq Map_get_def)
  have l: "Map_get (setLists store_with_songs) ''L'' = Some list_L"
    by (simp add: store_with_songs_eq Map_get_def)
  have nt: "normalizeTitle (title (example_song ''s1'' ''One'')) = ''one''"
    by (simp add: example_song_def normalizeTitle_def trim_def toLower_def toLowerChar_def)
  have first: "deleteSong store_with_songs ''zz'' = Inl SongNotFound"
    by (rule deleteSong_spec [of store_with_songs "''zz''", THEN conjunct1, rule_format, OF none])
  note inst = deleteSong_spec [of store_with_songs "''s1''", THEN conjunct2, rule_format, OF some]
  from inst obtain st' where del: "deleteSong store_with_songs ''s1'' = Inr st'"
    and sg: "\<forall>k. Map_get (songs st') k
                 = (if k = ''s1'' then None else Map_get (songs store_with_songs) k)"
    and tn: "Map_get (titleToId st') (normalizeTitle (title (example_song ''s1'' ''One'')))
                 = (if Map_get (titleToId store_with_songs)
                         (normalizeTitle (title (example_song ''s1'' ''One''))) = Some ''s1''
                    then None
                    else Map_get (titleToId store_with_songs)
                           (normalizeTitle (title (example_song ''s1'' ''One''))))"
    and ti: "\<forall>k. k \<noteq> normalizeTitle (title (example_song ''s1'' ''One'')) \<longrightarrow>
                 Map_get (titleToId st') k = Map_get (titleToId store_with_songs) k"
    and sl: "setLists st' = setLists store_with_songs"
    and ps: "\<forall>l. Map_get (setListSongPositions st') l
                 = (if Map_containsKey (setLists store_with_songs) l
                    then map_option (filter (\<lambda>pos. songId pos \<noteq> ''s1''))
                           (Map_get (setListSongPositions store_with_songs) l)
                    else Map_get (setListSongPositions store_with_songs) l)"
    and gs: "\<forall>l setList. Map_get (setLists store_with_songs) l = Some setList \<longrightarrow>
                 getSongsInSetList st' l
                   = Inr (resolveSongs (songs store_with_songs)
                            (filter (\<lambda>s. s \<noteq> ''s1'') (songIds setList)))"
    by (elim exE conjE) (rule that, assumption+)
  have t1: "Map_get (titleToId st') ''one'' = None"
    using tn by (simp add: nt store_with_songs_eq Map_get_def)
  have "''two'' \<noteq> normalizeTitle (title (example_song ''s1'' ''One''))"
    by (simp add: nt)
  then have "Map_get (titleToId st') ''two'' = Map_get (titleToId store_with_songs) ''two''"
    by (rule ti [rule_format])
  then have t2: "Map_get (titleToId st') ''two'' = Some ''s2''"
    by (simp add: store_with_songs_eq Map_get_def)
  have s1: "Map_get (songs st') ''s1'' = None"
    using sg [rule_format, of "''s1''"] by simp
  have "Map_get (songs st') ''s2'' = Map_get (songs store_with_songs) ''s2''"
    using sg [rule_format, of "''s2''"] by simp
  then have s2: "Map_get (songs st') ''s2'' = Some (example_song ''s2'' ''Two'')"
    by (simp add: store_with_songs_eq Map_get_def)
  have l': "Map_get (setLists st') ''L'' = Some list_L"
    using sl l by simp
  have "Map_containsKey (setLists store_with_songs) ''L''"
    using l by (simp add: Map_containsKey_def)
  with ps [rule_format, of "''L''"]
  have "Map_get (setListSongPositions st') ''L''
          = map_option (filter (\<lambda>pos. songId pos \<noteq> ''s1''))
              (Map_get (setListSongPositions store_with_songs) ''L'')"
    by simp
  then have p: "Map_get (setListSongPositions st') ''L''
                  = Some [\<lparr>songId = ''s2'', position = 2\<rparr>]"
    by (simp add: store_with_songs_eq Map_get_def)
  have "getSongsInSetList st' ''L''
          = Inr (resolveSongs (songs store_with_songs)
                   (filter (\<lambda>s. s \<noteq> ''s1'') (songIds list_L)))"
    by (rule gs [rule_format, OF l])
  then have g: "getSongsInSetList st' ''L'' = Inr [example_song ''s2'' ''Two'']"
    by (simp add: store_with_songs_eq Map_get_def list_L_def)
  from del s1 s2 t1 t2 l' p g
  have "\<exists>st'. deleteSong store_with_songs ''s1'' = Inr st'
         \<and> Map_get (songs st') ''s1'' = None
         \<and> Map_get (songs st') ''s2'' = Some (example_song ''s2'' ''Two'')
         \<and> Map_get (titleToId st') ''one'' = None
         \<and> Map_get (titleToId st') ''two'' = Some ''s2''
         \<and> Map_get (setLists st') ''L'' = Some list_L
         \<and> Map_get (setListSongPositions st') ''L'' = Some [\<lparr>songId = ''s2'', position = 2\<rparr>]
         \<and> getSongsInSetList st' ''L'' = Inr [example_song ''s2'' ''Two'']"
    by (intro exI [of _ st'] conjI)
  with first some show ?thesis by (intro conjI)
qed

subsection \<open>Snapshot import and export\<close>

lemma Map_get_empty: "Map_get [] k = None"
  by (simp add: Map_get_def)

lemma find_snoc:
  "find P (xs @ [x]) = (case find P xs of Some y \<Rightarrow> Some y | None \<Rightarrow> if P x then Some x else None)"
  by (induction xs) auto

lemma fold_Map_add_get:
  "Map_get (fold (\<lambda>x m. Map_add m (kf x) (vf x)) xs m0) k
     = (case find (\<lambda>x. kf x = k) (rev xs) of
          Some x \<Rightarrow> Some (vf x)
        | None \<Rightarrow> Map_get m0 k)"
proof (induction xs arbitrary: m0)
  case Nil
  show ?case by simp
next
  case (Cons x xs)
  show ?case
    by (auto simp: Cons.IH find_snoc Map_get_add split: option.splits)
qed

lemma Map_add_entries:
  "set (Map_add m k v) \<subseteq> insert (k, v) (set m)"
  by (induction m) auto

lemma fold_Map_add_entries:
  "set (fold (\<lambda>x m. Map_add m (kf x) (vf x)) xs m0) \<subseteq> set m0 \<union> (\<lambda>x. (kf x, vf x)) ` set xs"
proof (induction xs arbitrary: m0)
  case Nil
  show ?case by simp
next
  case (Cons x xs)
  have "set (fold (\<lambda>x m. Map_add m (kf x) (vf x)) xs (Map_add m0 (kf x) (vf x)))
          \<subseteq> set (Map_add m0 (kf x) (vf x)) \<union> (\<lambda>x. (kf x, vf x)) ` set xs"
    by (rule Cons.IH)
  with Map_add_entries [of m0 "kf x" "vf x"] show ?case by auto
qed

lemma positionsLoop_eq:
  "positionsLoop ids i acc
     = acc @ map (\<lambda>j. \<lparr>songId = ids ! j, position = j + 1\<rparr>) [i..<length ids]"
proof (induction ids i acc rule: positionsLoop.induct)
  case (1 ids i positions)
  show ?case
  proof (cases "i < length ids")
    case True
    with "1" show ?thesis
      by (subst positionsLoop.simps) (simp add: upt_conv_Cons)
  next
    case False
    then show ?thesis
      by (subst positionsLoop.simps) simp
  qed
qed

lemma fold_importSong:
  "fold importSong ss st
     = st\<lparr>songs := fold (\<lambda>s m. Map_add m (song_id s) s) ss (songs st),
          titleToId := fold (\<lambda>s m. Map_add m (normalizeTitle (title s)) (song_id s)) ss
                         (titleToId st)\<rparr>"
  by (induction ss arbitrary: st) (simp_all add: importSong_def Let_def)

lemma fold_importSetList:
  "fold importSetList ls st
     = st\<lparr>setLists := fold (\<lambda>l m. Map_add m (setlist_id l) l) ls (setLists st),
          setListSongPositions :=
            fold (\<lambda>l m. Map_add m (setlist_id l) (positionsLoop (songIds l) 0 [])) ls
              (setListSongPositions st)\<rparr>"
  by (induction ls arbitrary: st) (simp_all add: importSetList_def Let_def)

lemma importData_eq:
  "importData st data
     = st\<lparr>songs := fold (\<lambda>s m. Map_add m (song_id s) s) (snap_songs data) [],
          titleToId := fold (\<lambda>s m. Map_add m (normalizeTitle (title s)) (song_id s))
                         (snap_songs data) [],
          setLists := fold (\<lambda>l m. Map_add m (setlist_id l) l) (snap_setLists data) [],
          setListSongPositions :=
            fold (\<lambda>l m. Map_add m (setlist_id l) (positionsLoop (songIds l) 0 []))
              (snap_setLists data) []\<rparr>"
  by (simp add: importData_def Let_def fold_importSong fold_importSetList Map_empty_def)

text \<open>
  Claim C6. \<open>importData\<close> is a destructive full replace. Whatever the prior state, a
  lookup in the Song Store afterwards gives the last imported song with that id, a
  lookup in the Title Index gives the id of the last imported song with that normalized
  title, a lookup in the Set List Store gives the last imported set list with that id,
  and its position list numbers its id sequence 1, 2, ... in order; the exported songs
  and set lists are among the imported ones; and importing the empty snapshot makes
  \<open>exportData\<close> return two empty arrays.
\<close>

theorem importData_full_replace:
  "(\<forall>k. Map_get (songs (importData st data)) k
          = find (\<lambda>s. song_id s = k) (rev (snap_songs data)))
   \<and> (\<forall>k. Map_get (titleToId (importData st data)) k
          = map_option song_id (find (\<lambda>s. normalizeTitle (title s) = k) (rev (snap_songs data))))
   \<and> (\<forall>k. Map_get (setLists (importData st data)) k
          = find (\<lambda>l. setlist_id l = k) (rev (snap_setLists data)))
   \<and> (\<forall>k. Map_get (setListSongPositions (importData st data)) k
          = map_option
              (\<lambda>l. map (\<lambda>i. \<lparr>songId = songIds l ! i, position = i + 1\<rparr>) [0..<length (songIds l)])
              (find (\<lambda>l. setlist_id l = k) (rev (snap_setLists data))))
   \<and> set (snap_songs (exportData (importData st data))) \<subseteq> set (snap_songs data)
   \<and> set (snap_setLists (exportData (importData st data))) \<subseteq> set (snap_setLists data)
   \<and> exportData (importData st \<lparr>snap_songs = [], snap_setLists = []\<rparr>)
       = \<lparr>snap_songs = [], snap_setLists = []\<rparr>"
proof (intro conjI allI)
  fix k
  show "Map_get (songs (importData st data)) k
          = find (\<lambda>s. song_id s = k) (rev (snap_songs data))"
    by (simp add: importData_eq fold_Map_add_get Map_get_empty split: option.splits)
  show "Map_get (titleToId (importData st data)) k
          = map_option song_id (find (\<lambda>s. normalizeTitle (title s) = k) (rev (snap_songs data)))"
    by (simp add: importData_eq fold_Map_add_get Map_get_empty split: option.splits)
  show "Map_get (setLists (importData st data)) k
          = find (\<lambda>l. setlist_id l = k) (rev (snap_setLists data))"
    by (simp add: importData_eq fold_Map_add_get Map_get_empty split: option.splits)
  show "Map_get (setListSongPositions (importData st data)) k
          = map_option
              (\<lambda>l. map (\<lambda>i. \<lparr>songId = songIds l ! i, position = i + 1\<rparr>) [0..<length (songIds l)])
              (find (\<lambda>l. setlist_id l = k) (rev (snap_setLists data)))"
    by (simp add: importData_eq fold_Map_add_get Map_get_empty positionsLoop_eq
        split: option.splits)
next
  have "set (songs (importData st data)) \<subseteq> (\<lambda>s. (song_id s, s)) ` set (snap_songs data)"
    using fold_Map_add_entries [of song_id "\<lambda>s. s" "snap_songs data" "[]"]
    by (simp add: importData_eq)
  then show "set (snap_songs (exportData (importData st data))) \<subseteq> set (snap_songs data)"
    by (auto simp: exportData_def Map_values_def)
next
  have "set (setLists (importData st data)) \<subseteq> (\<lambda>l. (setlist_id l, l)) ` set (snap_setLists data)"
    using fold_Map_add_entries [of setlist_id "\<lambda>l. l" "snap_setLists data" "[]"]
    by (simp add: importData_eq)
  then show "set (snap_setLists (exportData (importData st data))) \<subseteq> set (snap_setLists data)"
    by (auto simp: exportData_def Map_values_def)
next
  show "exportData (importData st \<lparr>snap_songs = [], snap_setLists = []\<rparr>)
          = \<lparr>snap_songs = [], snap_setLists = []\<rparr>"
    by (simp add: importData_eq exportData_def Map_values_def)
qed

theorem importData_full_replace_witness:
  "Map_get (songs store_with_X) ''1000a'' \<noteq> None
   \<and> Map_get (songs (importData store_with_X colliding_snapshot)) ''1000a'' = None
   \<and> Map_get (songs (importData store_with_X colliding_snapshot)) ''s1''
       = Some (example_song ''s1'' ''One'')
   \<and> Map_get (songs (importData store_with_X colliding_snapshot)) ''s2''
       = Some (example_song ''s2'' '' one'')
   \<and> Map_get (titleToId (importData store_with_X colliding_snapshot)) ''x'' = None
   \<and> Map_get (titleToId (importData store_with_X colliding_snapshot)) ''one'' = Some ''s2''
   \<and> Map_get (setLists (importData store_with_X colliding_snapshot)) ''L'' = Some list_L
   \<and> Map_get (setListSongPositions (importData store_with_X colliding_snapshot)) ''L''
       = Some [\<lparr>songId = ''s1'', position = 1\<rparr>, \<lparr>songId = ''s2'', position = 2\<rparr>]
   \<and> exportData (importData store_with_X \<lparr>snap_songs = [], snap_setLists = []\<rparr>)
       = \<lparr>snap_songs = [], snap_setLists = []\<rparr>"
proof -
  note inst = importData_full_replace [of store_with_X colliding_snapshot]
  have old: "Map_get (songs store_with_X) ''1000a'' \<noteq> None"
    by (simp add: store_with_X_eq Map_get_def)
  have nt: "normalizeTitle ''One'' = ''one''" "normalizeTitle '' one'' = ''one''"
    by (simp_all add: normalizeTitle_def trim_def toLower_def toLowerChar_def)
  have sg: "Map_get (songs (importData store_with_X colliding_snapshot)) k
              = find (\<lambda>s. song_id s = k) (rev (snap_songs colliding_snapshot))" for k
    using inst by blast
  have ti: "Map_get (titleToId (importData store_with_X colliding_snapshot)) k
              = map_option song_id
                  (find (\<lambda>s. normalizeTitle (title s) = k) (rev (snap_songs colliding_snapshot)))"
    for k
    using inst by blast
  have sl: "Map_get (setLists (importData store_with_X colliding_snapshot)) k
              = find (\<lambda>l. setlist_id l = k) (rev (snap_setLists colliding_snapshot))" for k
    using inst by blast
  have ps: "Map_get (setListSongPositions (importData store_with_X colliding_snapshot)) k
              = map_option
                  (\<lambda>l. map (\<lambda>i. \<lparr>songId = songIds l ! i, position = i + 1\<rparr>)
                         [0..<length (songIds l)])
                  (find (\<lambda>l. setlist_id l = k) (rev (snap_setLists colliding_snapshot)))" for k
    using inst by blast
  have ex: "exportData (importData store_with_X \<lparr>snap_songs = [], snap_setLists = []\<rparr>)
              = \<lparr>snap_songs = [], snap_setLists = []\<rparr>"
    using importData_full_replace [of store_with_X "\<lparr>snap_songs = [], snap_setLists = []\<rparr>"]
    by blast
  have two: "[0..<2] = [0, Suc 0]"
    by (simp add: upt_rec)
  show ?thesis
    unfolding sg ti sl ps ex
    by (simp add: old colliding_snapshot_def example_song_def nt list_L_def two)
qed

subsection \<open>The identifier generator\<close>

lemma randomPart_zero: "randomPart now = 0"
  by (simp add: randomPart_def smod_int_alt_def)

lemma generateId_eq: "generateId now = Int_toText now @ ''0a''"
  by (simp add: generateId_def randomPart_zero randomString_def Nat_toText.simps digit_def)

text \<open>
  Claim C8 as stated fails: no pair of \<open>generateId\<close> calls that share a timestamp returns
  two different identifiers. Two \<open>createSetList\<close> calls at time 100, the second on the
  state the first one leaves, both return \<open>1000a\<close>.
\<close>

theorem generateId_same_timestamp_equal:
  "fst (createSetList 100 (initial_state :: unit actor_state) ''A'' []) = ''1000a''
   \<and> fst (createSetList 100
            (snd (createSetList 100 (initial_state :: unit actor_state) ''A'' [])) ''B'' [])
       = ''1000a''
   \<and> \<not> (\<exists>now id1 id2. id1 = generateId now \<and> id2 = generateId now \<and> id1 \<noteq> id2)"
  by (simp add: createSetList_def generateId_100 Let_def)

text \<open>
  Claim C8, amended. The identifier generator concatenates the decimal text of the
  timestamp with a short suffix (at most 9 characters) that is computed from the same
  timestamp. It reads nothing else, so the identity a \<open>createSetList\<close> call returns is
  the same for every state, name and id sequence at a given timestamp.
\<close>

theorem generateId_timestamp_only:
  "(\<exists>suffix. generateId now = Int_toText now @ suffix \<and> length suffix \<le> 9)
   \<and> fst (createSetList now st1 nm1 ids1) = generateId now
   \<and> fst (createSetList now st2 nm2 ids2) = generateId now"
  by (simp add: generateId_eq createSetList_def Let_def)

end
